theory Spec2Isabelle
  imports Main "HOL-Library.Word" "HOL-Library.Log_Nat" "HOL-Library.Sublist"
begin

section \<open>Host snapshot analysis (package hostsnap)\<close>

text \<open>
  A shallow embedding of the host-snapshot pipeline of the data-collection server:
  \<^verbatim>\<open>Analyze\<close>, \<^verbatim>\<open>needToUpdate\<close>, \<^verbatim>\<open>parseSetter\<close>, \<^verbatim>\<open>getHostByVal\<close>, \<^verbatim>\<open>getIPS\<close> and
  \<^verbatim>\<open>fetch\<close>, with the double-buffered host cache they work on. Locks are left out: every
  function is modelled as one sequential run.
\<close>

subsection \<open>float64\<close>

text \<open>
  A float64 is a finite value, an infinity or NaN. A finite value is kept as the rational
  it denotes; the two zeros are one value (the code only compares, multiplies and
  subtracts, and the only divisor is the constant 100, so the sign of a zero is never
  observed). Every operation rounds its exact result to the nearest value with a 53-bit
  significand, ties to even, with gradual underflow below \<open>2^-1022\<close> and overflow to an
  infinity when the rounded magnitude reaches \<open>2^1024\<close>.
\<close>

datatype f64 = Fin rat | PosInf | NegInf | NaN

definition pow2 :: "int \<Rightarrow> rat" where
  "pow2 e = (if 0 \<le> e then 2 ^ nat e else 1 / 2 ^ nat (- e))"

definition ilog2 :: "rat \<Rightarrow> int" where
  \<comment> \<open>for \<open>0 < a\<close>: the exponent \<open>e\<close> with \<open>2^e \<le> a < 2^(e+1)\<close>\<close>
  "ilog2 a = (let (p, q) = quotient_of a; k = bitlen p - bitlen q
              in if pow2 k \<le> a then k else k - 1)"

definition round_half_even :: "rat \<Rightarrow> int" where
  "round_half_even q =
     (let f = \<lfloor>q\<rfloor>; r = q - of_int f
      in if r < 1 / 2 then f else if 1 / 2 < r then f + 1 else if even f then f else f + 1)"

definition f64_round :: "rat \<Rightarrow> f64" where
  "f64_round x =
     (if x = 0 then Fin 0
      else let e = max (ilog2 \<bar>x\<bar>) (- 1022);
               n = round_half_even (x * pow2 (52 - e))
           in if 1024 \<le> e \<or> (e = 1023 \<and> 2 ^ 53 \<le> \<bar>n\<bar>)
              then (if 0 < x then PosInf else NegInf)
              else Fin (of_int n * pow2 (e - 52)))"

definition f64_of_int :: "int \<Rightarrow> f64" where
  "f64_of_int i = f64_round (of_int i)"

fun f64_neg :: "f64 \<Rightarrow> f64" where
  "f64_neg (Fin x) = Fin (- x)"
| "f64_neg PosInf = NegInf"
| "f64_neg NegInf = PosInf"
| "f64_neg NaN = NaN"

fun f64_lt :: "f64 \<Rightarrow> f64 \<Rightarrow> bool" where
  "f64_lt (Fin x) (Fin y) = (x < y)"
| "f64_lt (Fin x) PosInf = True"
| "f64_lt NegInf (Fin y) = True"
| "f64_lt NegInf PosInf = True"
| "f64_lt _ _ = False"

fun f64_eq :: "f64 \<Rightarrow> f64 \<Rightarrow> bool" where
  "f64_eq NaN _ = False"
| "f64_eq _ NaN = False"
| "f64_eq a b = (a = b)"

fun f64_mul :: "f64 \<Rightarrow> f64 \<Rightarrow> f64" where
  "f64_mul NaN _ = NaN"
| "f64_mul _ NaN = NaN"
| "f64_mul (Fin x) (Fin y) = f64_round (x * y)"
| "f64_mul (Fin x) PosInf = (if x = 0 then NaN else if 0 < x then PosInf else NegInf)"
| "f64_mul (Fin x) NegInf = (if x = 0 then NaN else if 0 < x then NegInf else PosInf)"
| "f64_mul PosInf (Fin y) = (if y = 0 then NaN else if 0 < y then PosInf else NegInf)"
| "f64_mul NegInf (Fin y) = (if y = 0 then NaN else if 0 < y then NegInf else PosInf)"
| "f64_mul PosInf PosInf = PosInf"
| "f64_mul PosInf NegInf = NegInf"
| "f64_mul NegInf PosInf = NegInf"
| "f64_mul NegInf NegInf = PosInf"

fun f64_sub :: "f64 \<Rightarrow> f64 \<Rightarrow> f64" where
  "f64_sub NaN _ = NaN"
| "f64_sub _ NaN = NaN"
| "f64_sub (Fin x) (Fin y) = f64_round (x - y)"
| "f64_sub (Fin x) PosInf = NegInf"
| "f64_sub (Fin x) NegInf = PosInf"
| "f64_sub PosInf PosInf = NaN"
| "f64_sub PosInf _ = PosInf"
| "f64_sub NegInf NegInf = NaN"
| "f64_sub NegInf _ = NegInf"

fun f64_div :: "f64 \<Rightarrow> f64 \<Rightarrow> f64" where
  "f64_div NaN _ = NaN"
| "f64_div _ NaN = NaN"
| "f64_div (Fin x) (Fin y) =
     (if y = 0 then (if x = 0 then NaN else if 0 < x then PosInf else NegInf)
      else f64_round (x / y))"
| "f64_div (Fin x) _ = Fin 0"
| "f64_div PosInf (Fin y) = (if 0 \<le> y then PosInf else NegInf)"
| "f64_div NegInf (Fin y) = (if 0 \<le> y then NegInf else PosInf)"
| "f64_div _ _ = NaN"

subsection \<open>Values of type interface\<close>

text \<open>
  What an \<^verbatim>\<open>interface{}\<close> holds in a host record or in the field map of a snapshot:
  nil, or a value tagged with its dynamic type. Signed integers are words read with
  \<open>sint\<close>, unsigned ones with \<open>unat\<close>. Nested documents and arrays of a host row are
  left out; the snapshot side only ever holds int64, uint64 and string.
\<close>

datatype val =
    VNil
  | VString string
  | VBool bool
  | VInt "64 word"
  | VInt32 "32 word"
  | VInt64 "64 word"
  | VUint64 "64 word"
  | VFloat64 f64

fun go_eq :: "val \<Rightarrow> val \<Rightarrow> bool" where
  \<comment> \<open>\<^verbatim>\<open>a == b\<close> on interfaces: same dynamic type and equal values\<close>
  "go_eq (VFloat64 a) (VFloat64 b) = f64_eq a b"
| "go_eq a b = (a = b)"

type_synonym mapstr = "(string \<times> val) list"
  \<comment> \<open>a \<^verbatim>\<open>map[string]interface{}\<close> built by a literal and then ranged over: the
      pairs, in the order the range visits them\<close>

type_synonym HostInst = "string \<rightharpoonup> val"
  \<comment> \<open>the \<^verbatim>\<open>data\<close> map of a HostInst\<close>

definition HostInst_get :: "HostInst \<Rightarrow> string \<Rightarrow> val" where
  "HostInst_get h key = (case h key of None \<Rightarrow> VNil | Some v \<Rightarrow> v)"

definition HostInst_set :: "HostInst \<Rightarrow> string \<Rightarrow> val \<Rightarrow> HostInst" where
  "HostInst_set h key v = h(key \<mapsto> v)"

definition HostInst_clone :: "HostInst \<Rightarrow> HostInst" where
  "HostInst_clone h = h"

fun copyVal :: "mapstr \<Rightarrow> HostInst \<Rightarrow> HostInst" where
  "copyVal [] b = b"
| "copyVal ((k, v) # a) b = copyVal a (HostInst_set b k v)"

subsection \<open>Change detection\<close>

text \<open>
  \<^verbatim>\<open>util.GetFloat64ByInterface\<close> is not among the sources: it is the parameter \<open>conv\<close>,
  with \<open>None\<close> for a returned error. \<open>pct\<close> is \<^verbatim>\<open>h.changeRangePercent\<close>.
\<close>

definition toleranceKey :: "string \<Rightarrow> bool" where
  "toleranceKey key \<longleftrightarrow>
     key = ''bk_cpu'' \<or> key = ''bk_cpu_mhz'' \<or> key = ''bk_disk'' \<or> key = ''bk_mem''"

definition rangeVal :: "int \<Rightarrow> f64 \<Rightarrow> f64" where
  "rangeVal pct compareFloat64Val =
     f64_mul compareFloat64Val (f64_div (f64_of_int pct) (Fin 100))"

definition inRange :: "int \<Rightarrow> f64 \<Rightarrow> f64 \<Rightarrow> bool" where
  "inRange pct srcFloat64Val compareFloat64Val =
     (let r = rangeVal pct compareFloat64Val;
          diff = f64_sub srcFloat64Val compareFloat64Val
      in f64_lt (f64_neg r) diff \<and> f64_lt diff r)"

fun needToUpdate :: "(val \<Rightarrow> f64 option) \<Rightarrow> int \<Rightarrow> mapstr \<Rightarrow> HostInst \<Rightarrow> bool" where
  "needToUpdate conv pct [] toCompare = False"
| "needToUpdate conv pct ((key, v) # src) toCompare =
     (let compareVal = HostInst_get toCompare key in
      if compareVal = VNil \<and> v = VString [] then needToUpdate conv pct src toCompare
      else if \<not> go_eq compareVal v then
        (if toleranceKey key then
           (case conv v of
              None \<Rightarrow> needToUpdate conv pct src toCompare
            | Some srcFloat64Val \<Rightarrow>
               (case conv compareVal of
                  None \<Rightarrow> needToUpdate conv pct src toCompare
                | Some compareFloat64Val \<Rightarrow>
                    if inRange pct srcFloat64Val compareFloat64Val
                    then needToUpdate conv pct src toCompare
                    else True))
         else True)
      else needToUpdate conv pct src toCompare)"

text \<open>
  What one field contributes: whether the loop body reaches \<^verbatim>\<open>return true\<close> on it.
\<close>

definition fieldDiffers :: "(val \<Rightarrow> f64 option) \<Rightarrow> int \<Rightarrow> string \<Rightarrow> val \<Rightarrow> val \<Rightarrow> bool" where
  "fieldDiffers conv pct key v compareVal \<longleftrightarrow>
     \<not> (compareVal = VNil \<and> v = VString []) \<and> \<not> go_eq compareVal v \<and>
     (toleranceKey key \<longrightarrow>
        (case conv v of
           None \<Rightarrow> False
         | Some s \<Rightarrow> (case conv compareVal of None \<Rightarrow> False | Some c \<Rightarrow> \<not> inRange pct s c)))"

text \<open>
  The helper as the repository's util package has it: every integer and float kind
  converts, anything else is an error. Used for the concrete runs below.
\<close>

fun numericToFloat64 :: "val \<Rightarrow> f64 option" where
  "numericToFloat64 (VInt i) = Some (f64_of_int (sint i))"
| "numericToFloat64 (VInt32 i) = Some (f64_of_int (sint i))"
| "numericToFloat64 (VInt64 i) = Some (f64_of_int (sint i))"
| "numericToFloat64 (VUint64 i) = Some (f64_of_int (uint i))"
| "numericToFloat64 (VFloat64 f) = Some f"
| "numericToFloat64 _ = None"

subsection \<open>Strings\<close>

text \<open>
  Strings are byte lists. \<^verbatim>\<open>HasPrefix\<close>, \<^verbatim>\<open>Replace\<close> and \<^verbatim>\<open>Split\<close> of package strings
  compare bytes and are defined here. \<^verbatim>\<open>strings.TrimSpace\<close> and \<^verbatim>\<open>strings.ToLower\<close> follow the
  Unicode tables of the Go release; they are parameters (record \<open>deps\<close> below).
\<close>

definition HasPrefix :: "string \<Rightarrow> string \<Rightarrow> bool" where
  "HasPrefix s pre = prefix pre s"

fun Replace1 :: "string \<Rightarrow> string \<Rightarrow> string \<Rightarrow> string" where
  \<comment> \<open>\<^verbatim>\<open>strings.Replace(s, old, new, 1)\<close>: the first occurrence only\<close>
  "Replace1 [] old new = (if old = [] then new else [])"
| "Replace1 (c # s) old new =
     (if prefix old (c # s) then new @ drop (length old) (c # s)
      else c # Replace1 s old new)"

definition SplitFirst :: "string \<Rightarrow> char \<Rightarrow> string" where
  \<comment> \<open>\<^verbatim>\<open>strings.Split(s, sep)[0]\<close> for a one-byte separator: the text before the first
      separator; Split never returns an empty slice here, so the index is in range\<close>
  "SplitFirst s sep = takeWhile (\<lambda>c. c \<noteq> sep) s"

fun Split :: "char \<Rightarrow> string \<Rightarrow> string list" where
  "Split sep [] = [[]]"
| "Split sep (c # s) =
     (if c = sep then [] # Split sep s
      else (case Split sep s of [] \<Rightarrow> [[c]] | w # ws \<Rightarrow> (c # w) # ws))"

definition isDigit :: "char \<Rightarrow> bool" where
  "isDigit c \<longleftrightarrow> 48 \<le> (of_char c :: nat) \<and> (of_char c :: nat) \<le> 57"

definition digitsVal :: "string \<Rightarrow> nat" where
  "digitsVal ds = foldl (\<lambda>n c. 10 * n + ((of_char c :: nat) - 48)) 0 ds"

definition Atoi :: "string \<Rightarrow> int option" where
  \<comment> \<open>\<^verbatim>\<open>strconv.Atoi\<close> with a 64-bit int: an optional sign and at least one decimal
      digit, in range; \<open>None\<close> for a returned error\<close>
  "Atoi s =
     (let (neg, ds) = (case s of
                         [] \<Rightarrow> (False, [])
                       | c # r \<Rightarrow> if c = CHR ''-'' then (True, r)
                                  else if c = CHR ''+'' then (False, r) else (False, s))
      in if ds = [] \<or> \<not> list_all isDigit ds then None
         else let i = (if neg then - int (digitsVal ds) else int (digitsVal ds))
              in if - (2 ^ 63) \<le> i \<and> i < 2 ^ 63 then Some i else None)"

fun decimal :: "nat \<Rightarrow> string" where
  "decimal n =
     (if n < 10 then [char_of (48 + n)] else decimal (n div 10) @ [char_of (48 + n mod 10)])"

declare decimal.simps [simp del]

definition FormatInt :: "int \<Rightarrow> string" where
  \<comment> \<open>\<^verbatim>\<open>strconv.FormatInt(i, 10)\<close>\<close>
  "FormatInt i = (if i < 0 then CHR ''-'' # decimal (nat (- i)) else decimal (nat i))"

subsection \<open>Parsed messages (gjson)\<close>

text \<open>
  A \<^verbatim>\<open>gjson.Result\<close> is \<open>None\<close> when the path does not exist and a node otherwise. A
  number keeps its raw text and the float64 the library parsed from it (a number the
  library computed itself has no raw text); an object or array keeps the raw text it was
  read from, which is what \<^verbatim>\<open>String()\<close> returns for it.
\<close>

datatype json =
    JNull
  | JTrue
  | JFalse
  | JNumber string f64
  | JString string
  | JArray string "json list"
  | JObject string "(string \<times> json) list"

text \<open>
  What the sources use but do not contain. \<open>GetFloat64ByInterface\<close> is the util helper
  (\<open>None\<close> for an error); \<open>Sprint\<close> is \<^verbatim>\<open>fmt.Sprint\<close> on one value; \<open>TrimSpace\<close> and \<open>ToLower\<close>
  are the functions of package strings; \<open>FormatFloat\<close> is
  \<^verbatim>\<open>strconv.FormatFloat(f, 'f', -1, 64)\<close>; \<open>Parse\<close> is \<^verbatim>\<open>gjson.Parse\<close>; \<open>ReadInt\<close> and \<open>ReadUint\<close>
  are what \<^verbatim>\<open>Result.Int\<close> and \<^verbatim>\<open>Result.Uint\<close> read from a string or number node (the library
  goes through its float64 and its own digit parser there); \<open>ArrayOfObject\<close> is what
  \<^verbatim>\<open>Result.Array\<close> returns for an object (the releases of the library differ: no element,
  or the object as the only element); the rest are constants of package common.
\<close>

record deps =
  GetFloat64ByInterface :: "val \<Rightarrow> f64 option"
  Sprint :: "val \<Rightarrow> string"
  TrimSpace :: "string \<Rightarrow> string"
  ToLower :: "string \<Rightarrow> string"
  FormatFloat :: "f64 \<Rightarrow> string"
  Parse :: "string \<Rightarrow> json option"
  ReadInt :: "json \<Rightarrow> 64 word"
  ReadUint :: "json \<Rightarrow> 64 word"
  ArrayOfObject :: "json \<Rightarrow> json list"
  BKHostIDField :: string
  BKHostInnerIPField :: string
  BKHostOuterIPField :: string
  BKCloudIDField :: string
  HostOSTypeEnumLinux :: string
  HostOSTypeEnumWindows :: string
  HostOSTypeEnumAIX :: string
  HostFieldDockerClientVersion :: string
  HostFieldDockerServerVersion :: string
  RedisSnapKeyPrefix :: string

definition arrayIndex :: "string \<Rightarrow> nat option" where
  "arrayIndex k = (if k \<noteq> [] \<and> list_all isDigit k then Some (digitsVal k) else None)"

fun getPath :: "string list \<Rightarrow> json \<Rightarrow> json option" where
  \<comment> \<open>a path of literal keys, array indices and \<open>#\<close>, as the sources write them\<close>
  "getPath [] v = Some v"
| "getPath (k # ks) v =
     (case v of
        JObject raw kvs \<Rightarrow>
          (case map_of kvs k of None \<Rightarrow> None | Some w \<Rightarrow> getPath ks w)
      | JArray raw xs \<Rightarrow>
          (if k = ''#'' then
             (if ks = [] then
                Some (JNumber (decimal (length xs)) (f64_of_int (int (length xs))))
              else
                Some (JArray []
                  (concat (map (\<lambda>x. case getPath ks x of None \<Rightarrow> [] | Some w \<Rightarrow> [w]) xs))))
           else
             (case arrayIndex k of
                None \<Rightarrow> None
              | Some i \<Rightarrow> if i < length xs then getPath ks (xs ! i) else None))
      | _ \<Rightarrow> None)"

definition gget :: "json option \<Rightarrow> string \<Rightarrow> json option" where
  \<comment> \<open>\<^verbatim>\<open>Result.Get(path)\<close>\<close>
  "gget r path = (case r of None \<Rightarrow> None | Some v \<Rightarrow> getPath (Split CHR ''.'' path) v)"

definition gExists :: "json option \<Rightarrow> bool" where
  "gExists r \<longleftrightarrow> r \<noteq> None"

definition plainInteger :: "string \<Rightarrow> bool" where
  \<comment> \<open>the raw text of a number is digits only, after one optional minus sign\<close>
  "plainInteger raw \<longleftrightarrow>
     list_all isDigit (case raw of [] \<Rightarrow> [] | c # r \<Rightarrow> if c = CHR ''-'' then r else raw)"

fun gString :: "deps \<Rightarrow> json option \<Rightarrow> string" where
  \<comment> \<open>\<^verbatim>\<open>Result.String()\<close>: a number gives its raw text when that is a plain integer, and
      its float64 formatted otherwise\<close>
  "gString D None = []"
| "gString D (Some JNull) = []"
| "gString D (Some JTrue) = ''true''"
| "gString D (Some JFalse) = ''false''"
| "gString D (Some (JNumber raw num)) =
     (if raw = [] then FormatFloat D num
      else if plainInteger raw then raw else FormatFloat D num)"
| "gString D (Some (JString s)) = s"
| "gString D (Some (JArray raw xs)) = raw"
| "gString D (Some (JObject raw kvs)) = raw"

fun gInt :: "deps \<Rightarrow> json option \<Rightarrow> 64 word" where
  "gInt D (Some JTrue) = 1"
| "gInt D (Some (JString s)) = ReadInt D (JString s)"
| "gInt D (Some (JNumber raw num)) = ReadInt D (JNumber raw num)"
| "gInt D _ = 0"

fun gUint :: "deps \<Rightarrow> json option \<Rightarrow> 64 word" where
  "gUint D (Some JTrue) = 1"
| "gUint D (Some (JString s)) = ReadUint D (JString s)"
| "gUint D (Some (JNumber raw num)) = ReadUint D (JNumber raw num)"
| "gUint D _ = 0"

fun gArray :: "deps \<Rightarrow> json option \<Rightarrow> json list" where
  "gArray D None = []"
| "gArray D (Some JNull) = []"
| "gArray D (Some (JArray raw xs)) = xs"
| "gArray D (Some (JObject raw kvs)) = ArrayOfObject D (JObject raw kvs)"
| "gArray D (Some v) = [v]"

subsection \<open>The snapshot parser\<close>

definition osFields :: "deps \<Rightarrow> string \<Rightarrow> string \<Rightarrow> string \<Rightarrow> string \<times> string \<times> string" where
  \<comment> \<open>the switch on the lower-cased OS type: the new (ostype, osname, version)\<close>
  "osFields D ostype platform version =
     (if ToLower D ostype = ''linux'' then
        (HostOSTypeEnumLinux D, ostype @ '' '' @ platform,
         Replace1 (Replace1 version ''.x86_64'' []) ''.i386'' [])
      else if ToLower D ostype = ''windows'' then
        (HostOSTypeEnumWindows D, Replace1 platform ''Microsoft '' [],
         Replace1 version ''Microsoft '' [])
      else if ToLower D ostype = ''aix'' then (HostOSTypeEnumAIX D, platform, version)
      else (ostype, platform, version))"

definition macStep ::
  "deps \<Rightarrow> string \<Rightarrow> string \<Rightarrow> json \<Rightarrow> string \<times> string \<Rightarrow> json \<Rightarrow> string \<times> string" where
  \<comment> \<open>one address of one interface: the new (OuterMAC, InnerMAC)\<close>
  "macStep D innerIP outerIP interf macs addr =
     (let ip = SplitFirst (gString D (Some addr)) CHR ''/'' in
      if ip = innerIP
      then (fst macs, TrimSpace D (gString D (gget (Some interf) ''hardwareaddr'')))
      else if ip = outerIP
      then (TrimSpace D (gString D (gget (Some interf) ''hardwareaddr'')), snd macs)
      else macs)"

definition macsOf :: "deps \<Rightarrow> json option \<Rightarrow> string \<Rightarrow> string \<Rightarrow> string \<times> string" where
  "macsOf D val innerIP outerIP =
     foldl (\<lambda>macs interf.
              foldl (macStep D innerIP outerIP interf) macs
                (gArray D (gget (Some interf) ''addrs.#.addr'')))
       ([], []) (gArray D (gget val ''data.net.interface''))"

definition parseSetter :: "deps \<Rightarrow> json option \<Rightarrow> string \<Rightarrow> string \<Rightarrow> mapstr" where
  "parseSetter D val innerIP outerIP =
     (let cpumodule = TrimSpace D (gString D (gget val ''data.cpu.cpuinfo.0.modelName''));
          cupnum = foldl (\<lambda>n core. n + gInt D (Some core)) 0
                     (gArray D (gget val ''data.cpu.cpuinfo.#.cores''));
          CPUMhz = gInt D (gget val ''data.cpu.cpuinfo.0.mhz'');
          disk = foldl (\<lambda>n disktotal.
                          n + drop_bit 10 (drop_bit 10 (drop_bit 10 (gUint D (Some disktotal)))))
                   0 (gArray D (gget val ''data.disk.usage.#.total''));
          mem = gUint D (gget val ''data.mem.meminfo.total'');
          hostname = TrimSpace D (gString D (gget val ''data.system.info.hostname''));
          ostype = TrimSpace D (gString D (gget val ''data.system.info.os''));
          platform = TrimSpace D (gString D (gget val ''data.system.info.platform''));
          version = gString D (gget val ''data.system.info.platformVersion'');
          (ostype', osname, version') = osFields D ostype platform version;
          version'' = TrimSpace D version';
          osname' = TrimSpace D osname;
          (OuterMAC, InnerMAC) = macsOf D val innerIP outerIP;
          osbit = TrimSpace D (gString D (gget val ''data.system.info.systemtype''));
          dockerClientVersion =
            TrimSpace D (gString D (gget val ''data.system.docker.Client.Version''));
          dockerServerVersion =
            TrimSpace D (gString D (gget val ''data.system.docker.Server.Version''));
          mem' = drop_bit 10 (drop_bit 10 mem)
      in [(''bk_cpu'', VInt64 cupnum),
          (''bk_cpu_module'', VString cpumodule),
          (''bk_cpu_mhz'', VInt64 CPUMhz),
          (''bk_disk'', VUint64 disk),
          (''bk_mem'', VUint64 mem'),
          (''bk_os_type'', VString ostype'),
          (''bk_os_name'', VString osname'),
          (''bk_os_version'', VString version''),
          (''bk_host_name'', VString hostname),
          (''bk_outer_mac'', VString OuterMAC),
          (''bk_mac'', VString InnerMAC),
          (''bk_os_bit'', VString osbit),
          (HostFieldDockerClientVersion D, VString dockerClientVersion),
          (HostFieldDockerServerVersion D, VString dockerServerVersion)])"

subsection \<open>Candidate addresses\<close>

definition getIPS :: "deps \<Rightarrow> json option \<Rightarrow> string list" where
  "getIPS D val =
     (let ips = (if \<not> HasPrefix (gString D (gget val ''ip'')) ''127.0.0.''
                 then [gString D (gget val ''ip'')] else []);
          interfaces = gArray D (gget val ''data.net.interface.#.addrs.#.addr'')
      in foldl (\<lambda>ips addrs.
                  foldl (\<lambda>ips addr.
                           let ip = SplitFirst (gString D (Some addr)) CHR ''/'' in
                           if HasPrefix ip ''127.0.0.'' then ips else ips @ [ip])
                    ips (gArray D (Some addrs)))
           ips interfaces)"

subsection \<open>The double-buffered host cache\<close>

text \<open>
  A HostCache maps a key \<^verbatim>\<open>cloudid::innerip\<close> to a host record. The Cache holds up to two
  generations indexed by a flag; a slot that was never stored reads as the nil pointer
  (\<open>None\<close>), and a method call on it panics. A pointer to a HostInst is modelled by the
  key under which the active generation holds the record, together with the record.
\<close>

type_synonym HostCache = "string \<rightharpoonup> HostInst"

record Cache =
  cache :: "bool \<Rightarrow> HostCache option"
  flag :: bool

record HostSnap =
  changeRangePercent :: int
  snapCache :: Cache

datatype 'a go = Normal 'a | Panic

definition HostCache_get :: "HostCache \<Rightarrow> string \<Rightarrow> HostInst option" where
  "HostCache_get hc key = hc key"

definition HostCache_set :: "HostCache \<Rightarrow> string \<Rightarrow> HostInst \<Rightarrow> HostCache" where
  "HostCache_set hc key v = hc(key \<mapsto> v)"

definition getCache :: "HostSnap \<Rightarrow> HostCache option" where
  "getCache h = cache (snapCache h) (flag (snapCache h))"

definition setCache :: "HostSnap \<Rightarrow> string \<Rightarrow> HostInst \<Rightarrow> HostSnap go" where
  "setCache h key v =
     (case cache (snapCache h) (flag (snapCache h)) of
        None \<Rightarrow> Panic
      | Some hc \<Rightarrow>
          Normal (h\<lparr>snapCache := (snapCache h)\<lparr>cache :=
            (cache (snapCache h))(flag (snapCache h) := Some (HostCache_set hc key v))\<rparr>\<rparr>))"

subsection \<open>External services\<close>

text \<open>
  The answers of the collaborators during one run. A reply is a transport error or a
  response with its \<^verbatim>\<open>Result\<close> flag and its data. The two database queries return the rows
  they decoded; their error is only logged by the callers.
\<close>

datatype 'a reply = HttpError | Reply bool 'a

record SaveAuditLogParams =
  ID :: "64 word"
  CurData :: HostInst
  PreData :: HostInst
  Headers :: "string list"
  ExtKey :: string
  BizID :: "64 word"

record services =
  dbFind :: "int \<Rightarrow> string list \<Rightarrow> string \<Rightarrow> HostInst list"
  dbPage :: "nat \<Rightarrow> nat \<Rightarrow> HostInst list"
  TryAccept :: bool
  UpdateInstance :: "val \<Rightarrow> mapstr \<Rightarrow> unit reply"
  GetHostByID :: "string \<Rightarrow> HostInst reply"
  GetHostModuleRelation :: "64 word list \<Rightarrow> (64 word list) reply"
  GetAuditLogHeader :: "string list option"
  SaveAuditLog :: "SaveAuditLogParams \<Rightarrow> unit reply"

datatype call =
    CacheGet string
  | DBFind int "string list" string
  | DBPage nat nat
  | RedisSet string string
  | CallTryAccept
  | CallUpdateInstance val mapstr
  | CallGetHostByID string
  | CallGetHostModuleRelation "64 word list"
  | CallGetAuditLogHeader
  | CallSaveAuditLog SaveAuditLogParams

datatype error =
    HostNotFound
  | HostIDNotInt64
  | HostIDEmpty
  | InnerIPNotString
  | UpdateHttpError
  | UpdateResponseError
  | GetHostHttpError
  | ModuleRelationHttpError
  | ModuleRelationResponseError
  | AuditHeaderError
  | AuditHttpError
  | AuditResponseError

subsection \<open>Host resolution\<close>

fun probeCache :: "HostCache \<Rightarrow> string \<Rightarrow> string list \<Rightarrow> call list \<times> (string \<times> HostInst) option" where
  \<comment> \<open>the loop over the candidate addresses; every probe is recorded\<close>
  "probeCache hc cloudid [] = ([], None)"
| "probeCache hc cloudid (ip # ips) =
     (case HostCache_get hc (cloudid @ ''::'' @ ip) of
        Some host \<Rightarrow> ([CacheGet (cloudid @ ''::'' @ ip)], Some (cloudid @ ''::'' @ ip, host))
      | None \<Rightarrow>
          (case probeCache hc cloudid ips of
             (tr, r) \<Rightarrow> (CacheGet (cloudid @ ''::'' @ ip) # tr, r)))"

definition hostKey :: "deps \<Rightarrow> HostInst \<Rightarrow> string" where
  "hostKey D row =
     Sprint D (HostInst_get row (BKCloudIDField D)) @ ''::'' @
     Sprint D (HostInst_get row (BKHostInnerIPField D))"

definition getHostByVal ::
  "deps \<Rightarrow> services \<Rightarrow> HostSnap \<Rightarrow> json option \<Rightarrow>
     (HostSnap \<times> call list \<times> (string \<times> HostInst) option) go" where
  "getHostByVal D W h val =
     (let cloudid = gString D (gget val ''cloudid'');
          ownerID = gString D (gget val ''bizid'');
          ips = getIPS D val
      in if 0 < length ips then
           (case getCache h of
              None \<Rightarrow> Panic
            | Some hc \<Rightarrow>
               (case probeCache hc cloudid ips of
                  (tr, Some host) \<Rightarrow> Normal (h, tr, Some host)
                | (tr, None) \<Rightarrow>
                   (case Atoi cloudid of
                      None \<Rightarrow> Normal (h, tr, None)
                    | Some cloudIDInt \<Rightarrow>
                       (case dbFind W cloudIDInt ips ownerID of
                          [] \<Rightarrow> Normal (h, tr @ [DBFind cloudIDInt ips ownerID], None)
                        | row # _ \<Rightarrow>
                           (case setCache h (hostKey D row) row of
                              Panic \<Rightarrow> Panic
                            | Normal h' \<Rightarrow>
                                Normal (h', tr @ [DBFind cloudIDInt ips ownerID],
                                        Some (hostKey D row, row)))))))
         else Normal (h, [], None))"

subsection \<open>The full refresh\<close>

text \<open>
  The offset is a uint64 and wraps; the loop ends only on a short page, so it is a partial
  function: \<open>None\<close> is a scan that never returns. Every page query is recorded with its
  offset and its limit.
\<close>

definition limit :: nat where
  "limit = 1000"

partial_function (option) fetchLoop ::
  "deps \<Rightarrow> (nat \<Rightarrow> nat \<Rightarrow> HostInst list) \<Rightarrow> 64 word \<Rightarrow> HostCache \<Rightarrow> call list \<Rightarrow>
     (HostCache \<times> call list) option" where
  "fetchLoop D page start hostcache tr =
     (let result = page (unat start) limit;
          hostcache' = foldl (\<lambda>hc row. hc(hostKey D row \<mapsto> row)) hostcache result;
          tr' = tr @ [DBPage (unat start) limit]
      in if length result < limit then Some (hostcache', tr')
         else fetchLoop D page (start + word_of_nat limit) hostcache' tr')"

definition fetch :: "deps \<Rightarrow> services \<Rightarrow> (HostCache \<times> call list) option" where
  "fetch D W = fetchLoop D (dbPage W) 0 Map.empty []"

definition tablePage :: "HostInst list \<Rightarrow> nat \<Rightarrow> nat \<Rightarrow> HostInst list" where
  \<comment> \<open>a host table holding \<open>rows\<close>, read in a stable order:
      \<^verbatim>\<open>Find(nil).Start(start).Limit(n)\<close>\<close>
  "tablePage rows start n = take n (drop start rows)"

subsection \<open>The update pipeline\<close>

text \<open>
  \<^verbatim>\<open>Analyze\<close> is cut in three at the points where its state changes: resolution and change
  detection (\<open>Analyze\<close>), the persistence call with the in-place update (\<open>persist\<close>), and
  the audit (\<open>audit\<close>). Each part returns the calls it made, in order, and the returned
  error (\<open>None\<close> for nil).
\<close>

definition audit ::
  "deps \<Rightarrow> services \<Rightarrow> 64 word \<Rightarrow> string \<Rightarrow> string \<Rightarrow> HostInst \<Rightarrow> call list \<times> error option" where
  "audit D W hostIdInt64 hostIdStr innerIp preData =
     (case GetHostByID W hostIdStr of
        HttpError \<Rightarrow> ([CallGetHostByID hostIdStr], Some GetHostHttpError)
      | Reply curResult curData \<Rightarrow>
         if \<not> curResult then ([CallGetHostByID hostIdStr], None)
         else
          (case GetHostModuleRelation W [hostIdInt64] of
             HttpError \<Rightarrow>
               ([CallGetHostByID hostIdStr, CallGetHostModuleRelation [hostIdInt64]],
                Some ModuleRelationHttpError)
           | Reply modResult info \<Rightarrow>
              if \<not> modResult then
                ([CallGetHostByID hostIdStr, CallGetHostModuleRelation [hostIdInt64]],
                 Some ModuleRelationResponseError)
              else
               (case GetAuditLogHeader W of
                  None \<Rightarrow>
                    ([CallGetHostByID hostIdStr, CallGetHostModuleRelation [hostIdInt64],
                      CallGetAuditLogHeader], Some AuditHeaderError)
                | Some auditHeader \<Rightarrow>
                   (let bizID = (case info of [] \<Rightarrow> 0 | appID # _ \<Rightarrow> appID);
                        auditLog = \<lparr>ID = hostIdInt64, CurData = curData, PreData = preData,
                                    Headers = auditHeader, ExtKey = innerIp, BizID = bizID\<rparr>;
                        tr = [CallGetHostByID hostIdStr, CallGetHostModuleRelation [hostIdInt64],
                              CallGetAuditLogHeader, CallSaveAuditLog auditLog]
                    in case SaveAuditLog W auditLog of
                         HttpError \<Rightarrow> (tr, Some AuditHttpError)
                       | Reply result _ \<Rightarrow>
                           if \<not> result then (tr, Some AuditResponseError) else (tr, None)))))"

definition writeBack :: "HostSnap \<Rightarrow> string \<Rightarrow> HostInst \<Rightarrow> HostSnap" where
  \<comment> \<open>the effect of mutating a resolved record in place: the active generation holds
      the new record under the same key\<close>
  "writeBack h key v =
     (case cache (snapCache h) (flag (snapCache h)) of
        None \<Rightarrow> h
      | Some hc \<Rightarrow>
          h\<lparr>snapCache := (snapCache h)\<lparr>cache :=
            (cache (snapCache h))(flag (snapCache h) := Some (HostCache_set hc key v))\<rparr>\<rparr>)"

definition persist ::
  "deps \<Rightarrow> services \<Rightarrow> HostSnap \<Rightarrow> string \<Rightarrow> HostInst \<Rightarrow> 64 word \<Rightarrow> string \<Rightarrow> string \<Rightarrow> mapstr \<Rightarrow>
     HostSnap \<times> call list \<times> error option" where
  "persist D W h key host hostIdInt64 hostIdStr innerIp setter =
     (case UpdateInstance W (VInt64 hostIdInt64) setter of
        HttpError \<Rightarrow> (h, [CallUpdateInstance (VInt64 hostIdInt64) setter], Some UpdateHttpError)
      | Reply res _ \<Rightarrow>
         if \<not> res then
           (h, [CallUpdateInstance (VInt64 hostIdInt64) setter], Some UpdateResponseError)
         else
          (let preData = HostInst_clone host;
               h' = writeBack h key (copyVal setter host)
           in case audit D W hostIdInt64 hostIdStr innerIp preData of
                (tr, err) \<Rightarrow> (h', CallUpdateInstance (VInt64 hostIdInt64) setter # tr, err)))"

definition dataOf :: "deps \<Rightarrow> string \<Rightarrow> string" where
  \<comment> \<open>the payload text: the message itself, or its \<^verbatim>\<open>data\<close> field when the message has
      no \<^verbatim>\<open>cloudid\<close> of its own\<close>
  "dataOf D mesg =
     (if \<not> gExists (gget (Parse D mesg) ''cloudid'')
      then gString D (gget (Parse D mesg) ''data'') else mesg)"

definition outIpOf :: "deps \<Rightarrow> HostInst \<Rightarrow> string" where
  \<comment> \<open>the comma-ok assertion to string: the empty string when it fails\<close>
  "outIpOf D host =
     (case HostInst_get host (BKHostOuterIPField D) of VString s \<Rightarrow> s | _ \<Rightarrow> [])"

definition Analyze ::
  "deps \<Rightarrow> services \<Rightarrow> HostSnap \<Rightarrow> string \<Rightarrow> (HostSnap \<times> call list \<times> error option) go" where
  "Analyze D W h mesg =
     (let data = dataOf D mesg;
          val = Parse D data
      in case getHostByVal D W h val of
           Panic \<Rightarrow> Panic
         | Normal (h1, tr1, None) \<Rightarrow> Normal (h1, tr1, Some HostNotFound)
         | Normal (h1, tr1, Some (key, host)) \<Rightarrow>
            (case HostInst_get host (BKHostIDField D) of
               VInt64 hostIdInt64 \<Rightarrow>
                (let hostIdStr = FormatInt (sint hostIdInt64) in
                 if hostIdStr = [] then Normal (h1, tr1, Some HostIDEmpty)
                 else
                  (let tr2 = tr1 @ [RedisSet (RedisSnapKeyPrefix D @ hostIdStr) data] in
                   case HostInst_get host (BKHostInnerIPField D) of
                     VString innerIp \<Rightarrow>
                      (let outIp = outIpOf D host;
                           setter = parseSetter D val innerIp outIp
                       in if \<not> needToUpdate (GetFloat64ByInterface D) (changeRangePercent h1)
                                 setter host
                          then Normal (h1, tr2, None)
                          else if \<not> TryAccept W then Normal (h1, tr2 @ [CallTryAccept], None)
                          else
                           (case persist D W h1 key host hostIdInt64 hostIdStr innerIp setter of
                              (h2, tr3, err) \<Rightarrow>
                                Normal (h2, tr2 @ CallTryAccept # tr3, err)))
                   | _ \<Rightarrow> Normal (h1, tr2, Some InnerIPNotString)))
             | _ \<Rightarrow> Normal (h1, tr1, Some HostIDNotInt64)))"

subsection \<open>A concrete snapshot\<close>

text \<open>
  An instance for the concrete runs below. The constants have the values of package
  common; \<open>exampleSprint\<close> is \<^verbatim>\<open>fmt.Sprint\<close> on nil, strings, booleans and integers (no
  float is printed in the runs); \<open>asciiTrimSpace\<close> and \<open>asciiToLower\<close> are
  \<^verbatim>\<open>strings.TrimSpace\<close> and \<^verbatim>\<open>strings.ToLower\<close> on ASCII text, which every text of the runs
  is; no number is formatted and no object is read as an array in the runs, where every
  number text is a plain integer; \<open>exampleRead\<close> reads a number node holding a
  non-negative integer below \<open>2^53\<close>, where every version of the library returns that
  integer; the parser knows two message texts. Raw texts of objects and arrays are not
  read in the runs and left empty.
\<close>

definition isSpace :: "char \<Rightarrow> bool" where
  "isSpace c \<longleftrightarrow> (of_char c :: nat) \<in> {9, 10, 11, 12, 13, 32}"

definition asciiTrimSpace :: "string \<Rightarrow> string" where
  "asciiTrimSpace s = rev (dropWhile isSpace (rev (dropWhile isSpace s)))"

definition asciiToLower :: "string \<Rightarrow> string" where
  "asciiToLower s =
     map (\<lambda>c. if 65 \<le> (of_char c :: nat) \<and> (of_char c :: nat) \<le> 90
              then char_of ((of_char c :: nat) + 32) else c) s"

fun exampleSprint :: "val \<Rightarrow> string" where
  "exampleSprint VNil = ''<nil>''"
| "exampleSprint (VString s) = s"
| "exampleSprint (VBool b) = (if b then ''true'' else ''false'')"
| "exampleSprint (VInt i) = FormatInt (sint i)"
| "exampleSprint (VInt32 i) = FormatInt (sint i)"
| "exampleSprint (VInt64 i) = FormatInt (sint i)"
| "exampleSprint (VUint64 i) = FormatInt (uint i)"
| "exampleSprint (VFloat64 f) = []"

fun exampleRead :: "json \<Rightarrow> 64 word" where
  "exampleRead (JNumber raw (Fin q)) = word_of_int \<lfloor>q\<rfloor>"
| "exampleRead _ = 0"

definition exampleSnapshot :: json where
  "exampleSnapshot =
     JObject []
       [(''ip'', JString ''10.0.0.7''),
        (''bizid'', JNumber ''0'' (Fin 0)),
        (''cloudid'', JNumber ''0'' (Fin 0)),
        (''data'', JObject []
          [(''cpu'', JObject []
             [(''cpuinfo'', JArray []
                [JObject [] [(''cores'', JNumber ''2'' (Fin 2)),
                             (''modelName'', JString ''Xeon E5 ''),
                             (''mhz'', JNumber ''2294'' (Fin 2294))],
                 JObject [] [(''cores'', JNumber ''2'' (Fin 2)),
                             (''modelName'', JString ''Xeon E5 ''),
                             (''mhz'', JNumber ''2294'' (Fin 2294))]])]),
           (''disk'', JObject []
             [(''usage'', JArray []
                [JObject [] [(''total'', JNumber ''1610612736'' (Fin 1610612736))],
                 JObject [] [(''total'', JNumber ''1610612736'' (Fin 1610612736))]])]),
           (''mem'', JObject []
             [(''meminfo'', JObject [] [(''total'', JNumber ''2147483648'' (Fin 2147483648))])]),
           (''net'', JObject []
             [(''interface'', JArray []
                [JObject [] [(''hardwareaddr'', JString ''28:31:52:1d:c6:0a''),
                             (''addrs'', JArray [] [JObject [] [(''addr'', JString ''127.0.0.1/8'')]])],
                 JObject [] [(''hardwareaddr'', JString ''52:54:00:19:2e:e8''),
                             (''addrs'', JArray []
                                [JObject [] [(''addr'', JString ''10.0.0.7/24'')],
                                 JObject [] [(''addr'', JString ''192.168.1.7/24'')]])]])]),
           (''system'', JObject []
             [(''info'', JObject []
                [(''hostname'', JString ''vm-7''),
                 (''os'', JString ''linux''),
                 (''platform'', JString ''centos''),
                 (''platformVersion'', JString ''6.2''),
                 (''systemtype'', JString ''64-bit'')])])])]"

definition exampleText :: string where
  "exampleText = ''snapshot of host 10.0.0.7 in cloud 0''"

definition strayText :: string where
  "strayText = ''snapshot declaring the address <nil> in cloud 0''"

definition straySnapshot :: json where
  "straySnapshot =
     JObject [] [(''ip'', JString ''<nil>''), (''bizid'', JNumber ''0'' (Fin 0)),
                 (''cloudid'', JNumber ''0'' (Fin 0))]"

definition exampleDeps :: deps where
  "exampleDeps =
     \<lparr>GetFloat64ByInterface = numericToFloat64,
      Sprint = exampleSprint,
      TrimSpace = asciiTrimSpace,
      ToLower = asciiToLower,
      FormatFloat = (\<lambda>f. []),
      Parse = (\<lambda>s. if s = exampleText then Some exampleSnapshot
                   else if s = strayText then Some straySnapshot else None),
      ReadInt = exampleRead,
      ReadUint = exampleRead,
      ArrayOfObject = (\<lambda>v. [v]),
      BKHostIDField = ''bk_host_id'',
      BKHostInnerIPField = ''bk_host_innerip'',
      BKHostOuterIPField = ''bk_host_outerip'',
      BKCloudIDField = ''bk_cloud_id'',
      HostOSTypeEnumLinux = ''1'',
      HostOSTypeEnumWindows = ''2'',
      HostOSTypeEnumAIX = ''3'',
      HostFieldDockerClientVersion = ''docker_client_version'',
      HostFieldDockerServerVersion = ''docker_server_version'',
      RedisSnapKeyPrefix = ''cc:v3:snapshot:''\<rparr>"

definition exampleHost :: HostInst where
  "exampleHost =
     [''bk_host_id'' \<mapsto> VInt64 7, ''bk_cloud_id'' \<mapsto> VInt64 0,
      ''bk_host_innerip'' \<mapsto> VString ''10.0.0.7'', ''bk_cpu'' \<mapsto> VInt64 4,
      ''bk_mem'' \<mapsto> VInt64 1024]"

definition exampleSnap :: HostSnap where
  "exampleSnap =
     \<lparr>changeRangePercent = 10,
      snapCache = \<lparr>cache = (\<lambda>b. if b then None else Some [''0::10.0.0.7'' \<mapsto> exampleHost]),
                   flag = False\<rparr>\<rparr>"

definition strayHost :: HostInst where
  \<comment> \<open>a host row without an inner address; the refresh files it under \<open>0::<nil>\<close>\<close>
  "strayHost = [''bk_host_id'' \<mapsto> VInt64 9, ''bk_cloud_id'' \<mapsto> VInt64 0]"

definition straySnap :: HostSnap where
  "straySnap =
     \<lparr>changeRangePercent = 10,
      snapCache = \<lparr>cache = (\<lambda>b. if b then None else Some [''0::<nil>'' \<mapsto> strayHost]),
                   flag = False\<rparr>\<rparr>"

definition exampleServices :: services where
  "exampleServices =
     \<lparr>dbFind = (\<lambda>cloud ips owner. []),
      dbPage = (\<lambda>start n. []),
      TryAccept = True,
      UpdateInstance = (\<lambda>hostID data. Reply True ()),
      GetHostByID = (\<lambda>hostID. Reply True exampleHost),
      GetHostModuleRelation = (\<lambda>ids. Reply True [2]),
      GetAuditLogHeader = Some [],
      SaveAuditLog = (\<lambda>auditLog. Reply True ())\<rparr>"

subsection \<open>Notions used in the statements\<close>

definition setterKeys :: "deps \<Rightarrow> string list" where
  \<comment> \<open>the keys of the literal that \<^verbatim>\<open>parseSetter\<close> returns\<close>
  "setterKeys D =
     [''bk_cpu'', ''bk_cpu_module'', ''bk_cpu_mhz'', ''bk_disk'', ''bk_mem'', ''bk_os_type'',
      ''bk_os_name'', ''bk_os_version'', ''bk_host_name'', ''bk_outer_mac'', ''bk_mac'',
      ''bk_os_bit'', HostFieldDockerClientVersion D, HostFieldDockerServerVersion D]"

definition reportedAddrs :: "deps \<Rightarrow> json list \<Rightarrow> string list" where
  \<comment> \<open>the addresses a list of interfaces reports, in reported order: for every interface
      the \<^verbatim>\<open>addr\<close> of every entry of its \<^verbatim>\<open>addrs\<close> array\<close>
  "reportedAddrs D ifs =
     concat (map (\<lambda>iface.
       case getPath [''addrs''] iface of
         Some (JArray raw entries) \<Rightarrow>
           concat (map (\<lambda>e. case getPath [''addr''] e of
                               None \<Rightarrow> [] | Some a \<Rightarrow> [gString D (Some a)]) entries)
       | _ \<Rightarrow> []) ifs)"

section \<open>Properties of the change detector\<close>

lemma needToUpdate_Cons:
  "needToUpdate conv pct ((key, v) # src) h =
     (fieldDiffers conv pct key v (HostInst_get h key) \<or> needToUpdate conv pct src h)"
  by (auto simp: fieldDiffers_def Let_def split: option.splits)

lemma needToUpdate_append:
  "needToUpdate conv pct (xs @ ys) h =
     (needToUpdate conv pct xs h \<or> needToUpdate conv pct ys h)"
proof (induction xs)
  case Nil
  show ?case by simp
next
  case (Cons x xs)
  obtain k v where x: "x = (k, v)" by (cases x)
  show ?case
    unfolding x append_Cons needToUpdate_Cons using Cons.IH by blast
qed

lemma needToUpdate_iff:
  "needToUpdate conv pct src h =
     (\<exists>(k, v) \<in> set src. fieldDiffers conv pct k v (HostInst_get h k))"
proof (induction src)
  case Nil
  show ?case by simp
next
  case (Cons x xs)
  obtain k v where x: "x = (k, v)" by (cases x)
  show ?case
    unfolding x needToUpdate_Cons using Cons.IH by auto
qed

lemma rangeVal_10_100: "rangeVal 10 (Fin 100) = Fin 10"
  unfolding rangeVal_def by code_simp




lemma inRange_10_109_100: "inRange 10 (Fin 109) (Fin 100)"
  by code_simp



text \<open>
  C4: a field whose current value is absent (nil) while the candidate is the empty string
  counts as unchanged; for a field outside the tolerance set, any other inequality between
  candidate and current, absent against present included, makes needToUpdate return true
  wherever the field stands in the range order, whatever follows it; and needToUpdate
  returns true exactly when some field differs in this sense, so it returns false when
  none does.
\<close>

theorem needToUpdate_exact_fields:
  "(HostInst_get host key = VNil \<and> v = VString [] \<longrightarrow>
      needToUpdate conv pct (pre @ (key, v) # post) host =
        (needToUpdate conv pct pre host \<or> needToUpdate conv pct post host)) \<and>
   (\<not> toleranceKey key \<and> \<not> go_eq (HostInst_get host key) v \<and>
    \<not> (HostInst_get host key = VNil \<and> v = VString []) \<longrightarrow>
      needToUpdate conv pct (pre @ (key, v) # post) host) \<and>
   needToUpdate conv pct src host =
     (\<exists>(k, w) \<in> set src. fieldDiffers conv pct k w (HostInst_get host k)) \<and>
   ((\<forall>(k, w) \<in> set src.
        go_eq (HostInst_get host k) w \<or> (HostInst_get host k = VNil \<and> w = VString [])) \<longrightarrow>
      \<not> needToUpdate conv pct src host)"
proof -
  have split: "needToUpdate conv pct (pre @ (key, v) # post) host =
      (needToUpdate conv pct pre host \<or> fieldDiffers conv pct key v (HostInst_get host key) \<or>
       needToUpdate conv pct post host)"
    by (simp only: needToUpdate_append needToUpdate_Cons)
  have a: "needToUpdate conv pct (pre @ (key, v) # post) host =
        (needToUpdate conv pct pre host \<or> needToUpdate conv pct post host)"
    if "HostInst_get host key = VNil \<and> v = VString []"
    unfolding split using that by (simp add: fieldDiffers_def)
  have b: "needToUpdate conv pct (pre @ (key, v) # post) host"
    if "\<not> toleranceKey key \<and> \<not> go_eq (HostInst_get host key) v \<and>
        \<not> (HostInst_get host key = VNil \<and> v = VString [])"
    unfolding split using that by (simp add: fieldDiffers_def)
  have d: "\<not> needToUpdate conv pct src host"
    if "\<forall>(k, w) \<in> set src.
        go_eq (HostInst_get host k) w \<or> (HostInst_get host k = VNil \<and> w = VString [])"
    unfolding needToUpdate_iff using that by (auto simp: fieldDiffers_def)
  show ?thesis
    using a b d needToUpdate_iff [of conv pct src host] by blast
qed

theorem needToUpdate_exact_fields_witness:
  "needToUpdate numericToFloat64 10
     [(''bk_mac'', VString []), (''bk_os_name'', VString ''linux centos''), (''bk_cpu'', VInt64 4)]
     [''bk_cpu'' \<mapsto> VInt64 4] \<and>
   \<not> needToUpdate numericToFloat64 10
     [(''bk_mac'', VString []), (''bk_cpu'', VInt64 4)] [''bk_cpu'' \<mapsto> VInt64 4]"
proof -
  let ?host = "[''bk_cpu'' \<mapsto> VInt64 (4 :: 64 word)]"
  have g: "HostInst_get ?host ''bk_os_name'' = VNil" "HostInst_get ?host ''bk_mac'' = VNil"
    "HostInst_get ?host ''bk_cpu'' = VInt64 4"
    by (simp_all add: HostInst_get_def)
  have t: "\<not> toleranceKey ''bk_os_name''"
    by (simp add: toleranceKey_def)
  note inst = needToUpdate_exact_fields [of ?host "''bk_os_name''" "VString ''linux centos''"
      numericToFloat64 10 "[(''bk_mac'', VString [])]" "[(''bk_cpu'', VInt64 4)]"
      "[(''bk_mac'', VString []), (''bk_cpu'', VInt64 4)]"]
  have ne: "\<not> go_eq (HostInst_get ?host ''bk_os_name'') (VString ''linux centos'')"
    unfolding g by simp
  have nn: "\<not> (HostInst_get ?host ''bk_os_name'' = VNil \<and>
      VString ''linux centos'' = VString [])"
    by simp
  have "needToUpdate numericToFloat64 10
     ([(''bk_mac'', VString [])] @ (''bk_os_name'', VString ''linux centos'') #
      [(''bk_cpu'', VInt64 4)]) ?host"
    using inst t ne nn by blast
  then have 1: "needToUpdate numericToFloat64 10
     [(''bk_mac'', VString []), (''bk_os_name'', VString ''linux centos''), (''bk_cpu'', VInt64 4)]
     ?host"
    by (simp only: append_Cons append_Nil)
  have all: "\<forall>(k, w) \<in> set [(''bk_mac'', VString []), (''bk_cpu'', VInt64 4)].
      go_eq (HostInst_get ?host k) w \<or> (HostInst_get ?host k = VNil \<and> w = VString [])"
    by (simp add: g)
  have 2: "\<not> needToUpdate numericToFloat64 10
     [(''bk_mac'', VString []), (''bk_cpu'', VInt64 4)] ?host"
    using inst all by blast
  show ?thesis using 1 2 by blast
qed

end
